theory Spec2Isabelle
  imports Main
begin

section \<open>Data model\<close>

text \<open>
  The store-credit service of \<^verbatim>\<open>src/index.js\<close> keeps two tables in the database
  (\<^verbatim>\<open>supabase-schema.sql\<close>): \<^verbatim>\<open>profiles\<close> with the credit balance of every
  user, and \<^verbatim>\<open>credit_transactions\<close> with one row per reservation. The discount
  instruments live at the shop (price rules and their discount codes).

  Amounts are the \<^verbatim>\<open>DECIMAL(10, 2)\<close> values of the schema, counted in cents
  (\<open>5000\<close> is 50.00). Timestamps are milliseconds since the epoch.
\<close>

datatype tx_status = Pending | Completed | Cancelled

record profile =
  email :: string
  credits :: int

text \<open>
  A row of \<^verbatim>\<open>credit_transactions\<close>. The primary key \<^verbatim>\<open>id\<close> is the position of the
  row in the table: rows are only ever inserted (with a key generated by the database),
  never deleted. The free-text column \<^verbatim>\<open>description\<close> is left out.
\<close>

record credit_transaction =
  user_id :: string
  amount :: int
  ttype :: string
  status :: tx_status
  discount_code :: string
  price_rule_id :: string
  created_at :: int
  completed_at :: "int option"
  cancelled_at :: "int option"
  order_id :: "string option"
  order_number :: "string option"

text \<open>A price rule at the shop: the amount it was requested for and its discount codes.\<close>

record price_rule =
  pr_id :: nat
  pr_amount :: int
  pr_codes :: "string list"

record db =
  profiles :: "string \<rightharpoonup> profile"
  credit_transactions :: "credit_transaction list"
  shop :: "price_rule list"

text \<open>
  What a request meets outside the handler: the clock (\<^verbatim>\<open>Date.now()\<close>), the random
  suffix of the discount code (\<^verbatim>\<open>Math.random().toString(36).substring(7)\<close>), and the
  answers of the shop: the id of the price rule it created (\<open>None\<close> when the response is
  not ok), whether it created the discount code, and whether it deleted a price rule.
  The last two fields are the time zone of the server, in milliseconds east of UTC: the
  offset of its local time at the clock of the request, and the offset in effect at the
  local time 24 hours before (the two differ across a daylight-saving change).
\<close>

record world =
  now :: int
  rnd :: string
  price_rule_created :: "nat option"
  code_created :: bool
  price_rule_deleted :: bool
  local_offset :: int
  local_offset_before :: int

subsection \<open>Requests and responses\<close>

text \<open>A field of a JSON body that is absent is \<open>None\<close>.\<close>

record apply_req =
  creditAmount :: "int option"
  userId :: "string option"
  cartItems :: "string list option"

record cancel_req =
  c_userId :: "string option"
  c_discountCode :: "string option"
  c_priceRuleId :: "nat option"

text \<open>
  The order of a webhook: the \<^verbatim>\<open>code\<close> of each entry of \<^verbatim>\<open>discount_codes\<close>
  (\<open>None\<close> for an entry without one), \<^verbatim>\<open>id\<close> and \<^verbatim>\<open>order_number\<close>. With it come
  the signature header and the base64 HMAC-SHA256 digest that the handler computes over
  the body with the shared secret.
\<close>

record webhook_req =
  hmac_header :: "string option"
  body_hmac :: string
  discount_codes :: "string option list"
  o_id :: "nat option"
  o_order_number :: "string option"

datatype http_method = OPTIONS | POST | OTHER

datatype response =
    MissingFields
  | UserNotFound
  | InsufficientCredits int int
  | ApplySuccess string int int nat
  | ServerError string string
  | MissingUserOrCode
  | TransactionNotFound
  | CancelSuccess int int
  | Unauthorized
  | NoCreditsUsed
  | AlreadyProcessed
  | Finalized nat
  | CleanupCancelled nat
  | CleanupNothing
  | OkEnd
  | MethodNotAllowed

fun http_status :: "response \<Rightarrow> nat" where
  "http_status MissingFields = 400"
| "http_status UserNotFound = 404"
| "http_status (InsufficientCredits _ _) = 400"
| "http_status (ApplySuccess _ _ _ _) = 200"
| "http_status (ServerError _ _) = 500"
| "http_status MissingUserOrCode = 400"
| "http_status TransactionNotFound = 404"
| "http_status (CancelSuccess _ _) = 200"
| "http_status Unauthorized = 401"
| "http_status NoCreditsUsed = 200"
| "http_status AlreadyProcessed = 200"
| "http_status (Finalized _) = 200"
| "http_status (CleanupCancelled _) = 200"
| "http_status CleanupNothing = 200"
| "http_status OkEnd = 200"
| "http_status MethodNotAllowed = 405"

text \<open>The field \<^verbatim>\<open>transactions\<close> of the cleanup response.\<close>

fun transactions_count :: "response \<Rightarrow> nat" where
  "transactions_count (CleanupCancelled n) = n"
| "transactions_count _ = 0"

section \<open>Helpers of the handlers\<close>

text \<open>Decimal rendering of a number, as template strings and \<^verbatim>\<open>toString()\<close> do.\<close>

fun string_of_nat :: "nat \<Rightarrow> string" where
  "string_of_nat n =
     (if n < 10 then [''0123456789'' ! n]
      else string_of_nat (n div 10) @ [''0123456789'' ! (n mod 10)])"

declare string_of_nat.simps [simp del]

definition startsWith :: "string \<Rightarrow> string \<Rightarrow> bool" where
  "startsWith s p = (take (length p) s = p)"

text \<open>
  \<^verbatim>\<open>.single()\<close> of the database client: the row when the query has exactly one,
  otherwise no data (and an error).
\<close>

fun single :: "'a list \<Rightarrow> 'a option" where
  "single [x] = Some x"
| "single _ = None"

text \<open>A query on \<^verbatim>\<open>credit_transactions\<close>: the rows that match, each with its id.\<close>

definition select_tx :: "(credit_transaction \<Rightarrow> bool) \<Rightarrow> db \<Rightarrow> (nat \<times> credit_transaction) list" where
  "select_tx P s = filter (\<lambda>(i, t). P t) (enumerate 0 (credit_transactions s))"

definition update_tx :: "nat \<Rightarrow> (credit_transaction \<Rightarrow> credit_transaction) \<Rightarrow> db \<Rightarrow> db" where
  "update_tx i f s =
     s\<lparr>credit_transactions := (credit_transactions s)[i := f (credit_transactions s ! i)]\<rparr>"

text \<open>The read of a balance: \<^verbatim>\<open>select('credits').eq('id', userId).single()\<close>.\<close>

definition get_balance :: "db \<Rightarrow> string \<Rightarrow> int option" where
  "get_balance s u = map_option credits (profiles s u)"

definition set_credits :: "string \<Rightarrow> int \<Rightarrow> db \<Rightarrow> db" where
  "set_credits u c s =
     (case profiles s u of
        None \<Rightarrow> s
      | Some p \<Rightarrow> s\<lparr>profiles := (profiles s)(u \<mapsto> p\<lparr>credits := c\<rparr>)\<rparr>)"

section \<open>POST /api/apply-credits\<close>

definition make_discount_code :: "world \<Rightarrow> string" where
  "make_discount_code w = ''CREDIT-'' @ string_of_nat (nat (now w)) @ ''-'' @ rnd w"

definition pending_row :: "world \<Rightarrow> string \<Rightarrow> int \<Rightarrow> nat \<Rightarrow> credit_transaction" where
  "pending_row w uid amt rid =
     \<lparr>user_id = uid, amount = amt, ttype = ''debit'', status = Pending,
      discount_code = make_discount_code w, price_rule_id = string_of_nat rid,
      created_at = now w, completed_at = None, cancelled_at = None,
      order_id = None, order_number = None\<rparr>"

text \<open>
  Steps 3 to 5 of the handler, after the balance check: the price rule, its discount code,
  the pending row. A response of the shop that is not ok throws, and the handler answers
  500 from its \<^verbatim>\<open>catch\<close>; nothing is undone there.
\<close>

definition issue_and_record :: "world \<Rightarrow> string \<Rightarrow> int \<Rightarrow> profile \<Rightarrow> db \<Rightarrow> db \<times> response" where
  "issue_and_record w uid amt p s =
     (case price_rule_created w of
        None \<Rightarrow> (s, ServerError ''Failed to apply credits'' ''Failed to create discount in Shopify'')
      | Some rid \<Rightarrow>
          if \<not> code_created w then
            (s\<lparr>shop := shop s @ [\<lparr>pr_id = rid, pr_amount = amt, pr_codes = []\<rparr>]\<rparr>,
             ServerError ''Failed to apply credits'' ''Failed to create discount code'')
          else
            (s\<lparr>shop := shop s @ [\<lparr>pr_id = rid, pr_amount = amt, pr_codes = [make_discount_code w]\<rparr>],
               credit_transactions := credit_transactions s @ [pending_row w uid amt rid]\<rparr>,
             ApplySuccess (make_discount_code w) amt (credits p) rid))"

definition apply_credits :: "world \<Rightarrow> apply_req \<Rightarrow> db \<Rightarrow> db \<times> response" where
  "apply_credits w req s =
     (case (creditAmount req, userId req, cartItems req) of
        (Some amt, Some uid, Some items) \<Rightarrow>
          if amt = 0 \<or> uid = [] then (s, MissingFields)
          else (case profiles s uid of
                  None \<Rightarrow> (s, UserNotFound)
                | Some p \<Rightarrow>
                    if credits p < amt then (s, InsufficientCredits (credits p) amt)
                    else issue_and_record w uid amt p s)
      | _ \<Rightarrow> (s, MissingFields))"

section \<open>POST /api/cancel-credits\<close>

definition delete_price_rule :: "world \<Rightarrow> nat option \<Rightarrow> db \<Rightarrow> db" where
  "delete_price_rule w rid s =
     (case rid of
        None \<Rightarrow> s
      | Some r \<Rightarrow>
          if r = 0 then s
          else if price_rule_deleted w then s\<lparr>shop := filter (\<lambda>pr. pr_id pr \<noteq> r) (shop s)\<rparr>
          else s)"

definition mark_cancelled :: "world \<Rightarrow> credit_transaction \<Rightarrow> credit_transaction" where
  "mark_cancelled w t = t\<lparr>status := Cancelled, cancelled_at := Some (now w)\<rparr>"

text \<open>
  The handler of \<^verbatim>\<open>src/index.js\<close>. Its success response reads the variable
  \<^verbatim>\<open>restoredBalance\<close> (line 226), which \<^verbatim>\<open>src/index.js\<close> never declares: the read throws a
  ReferenceError after the row is cancelled, and the \<^verbatim>\<open>catch\<close> answers 500.
\<close>

definition cancel_credits :: "world \<Rightarrow> cancel_req \<Rightarrow> db \<Rightarrow> db \<times> response" where
  "cancel_credits w req s =
     (case (c_userId req, c_discountCode req) of
        (Some uid, Some code) \<Rightarrow>
          if uid = [] \<or> code = [] then (s, MissingUserOrCode)
          else (case single (select_tx (\<lambda>t. user_id t = uid \<and> discount_code t = code
                                              \<and> status t = Pending) s) of
                  None \<Rightarrow> (s, TransactionNotFound)
                | Some (i, t) \<Rightarrow>
                    (delete_price_rule w (c_priceRuleId req) (update_tx i (mark_cancelled w) s),
                     ServerError ''Failed to cancel credits'' ''restoredBalance is not defined''))
      | _ \<Rightarrow> (s, MissingUserOrCode))"

text \<open>
  The standalone handler \<^verbatim>\<open>src/api/cancel-credits.js\<close>: it adds the amount of the
  reservation to the balance before it cancels the row.
\<close>

definition cancel_credits_standalone :: "world \<Rightarrow> http_method \<Rightarrow> cancel_req \<Rightarrow> db \<Rightarrow> db \<times> response" where
  "cancel_credits_standalone w m req s =
     (if m = OPTIONS then (s, OkEnd)
      else if m \<noteq> POST then (s, MethodNotAllowed)
      else
     (case (c_userId req, c_discountCode req) of
        (Some uid, Some code) \<Rightarrow>
          if uid = [] \<or> code = [] then (s, MissingUserOrCode)
          else (case single (select_tx (\<lambda>t. user_id t = uid \<and> discount_code t = code
                                              \<and> status t = Pending) s) of
                  None \<Rightarrow> (s, TransactionNotFound)
                | Some (i, t) \<Rightarrow>
                    (case profiles s uid of
                       None \<Rightarrow> (s, ServerError ''Failed to cancel credits'' ''Failed to fetch user profile'')
                     | Some p \<Rightarrow>
                         (delete_price_rule w (c_priceRuleId req)
                            (update_tx i (mark_cancelled w) (set_credits uid (credits p + amount t) s)),
                          CancelSuccess (amount t) (credits p + amount t))))
      | _ \<Rightarrow> (s, MissingUserOrCode)))"

section \<open>POST /api/order-webhook\<close>

text \<open>The first entry of \<^verbatim>\<open>discount_codes\<close> whose code starts with \<^verbatim>\<open>CREDIT-\<close>.\<close>

fun creditDiscount :: "string option list \<Rightarrow> string option" where
  "creditDiscount [] = None"
| "creditDiscount (None # dcs) = creditDiscount dcs"
| "creditDiscount (Some c # dcs) =
     (if c \<noteq> [] \<and> startsWith c ''CREDIT-'' then Some c else creditDiscount dcs)"

definition mark_completed :: "world \<Rightarrow> nat \<Rightarrow> string option \<Rightarrow> credit_transaction \<Rightarrow> credit_transaction" where
  "mark_completed w oid onum t =
     t\<lparr>status := Completed, completed_at := Some (now w),
       order_id := Some (string_of_nat oid), order_number := onum\<rparr>"

text \<open>
  The debit \<^verbatim>\<open>profile.credits - transaction.amount\<close> is written as it is computed.
  An order without \<^verbatim>\<open>id\<close> makes \<^verbatim>\<open>order.id.toString()\<close> throw after the debit.
\<close>

definition order_webhook :: "world \<Rightarrow> webhook_req \<Rightarrow> db \<Rightarrow> db \<times> response" where
  "order_webhook w req s =
     (if Some (body_hmac req) \<noteq> hmac_header req then (s, Unauthorized)
      else (case creditDiscount (discount_codes req) of
              None \<Rightarrow> (s, NoCreditsUsed)
            | Some code \<Rightarrow>
                (case single (select_tx (\<lambda>t. discount_code t = code \<and> status t = Pending) s) of
                   None \<Rightarrow> (s, AlreadyProcessed)
                 | Some (i, t) \<Rightarrow>
                     (let s1 = (case profiles s (user_id t) of
                                  None \<Rightarrow> s
                                | Some p \<Rightarrow> set_credits (user_id t) (credits p - amount t) s)
                      in case o_id req of
                           None \<Rightarrow> (s1, ServerError ''Webhook processing failed''
                                          ''Cannot read properties of undefined'')
                         | Some oid \<Rightarrow>
                             (update_tx i (mark_completed w oid (o_order_number req)) s1,
                              Finalized oid)))))"

subsection \<open>The handlers between their awaits\<close>

text \<open>
  A handler gives way to other requests at each \<^verbatim>\<open>await\<close>. The webhook first looks
  the pending reservation up (lines 243 to 293); what it does afterwards, the debit and the
  update of the row with the id it has read (lines 295 to 327), runs on the state of that
  later moment. The update names the row by \<^verbatim>\<open>id\<close> alone, without
  \<^verbatim>\<open>status = 'pending'\<close>. The cancel handler has the same two halves (lines 172 to
  192, and 197 to 227). The sweep alone repeats the filter on the status in its update.
\<close>

definition order_webhook_read :: "webhook_req \<Rightarrow> db \<Rightarrow> response + nat \<times> credit_transaction" where
  "order_webhook_read req s =
     (if Some (body_hmac req) \<noteq> hmac_header req then Inl Unauthorized
      else (case creditDiscount (discount_codes req) of
              None \<Rightarrow> Inl NoCreditsUsed
            | Some code \<Rightarrow>
                (case single (select_tx (\<lambda>t. discount_code t = code \<and> status t = Pending) s) of
                   None \<Rightarrow> Inl AlreadyProcessed
                 | Some it \<Rightarrow> Inr it)))"

definition order_webhook_write :: "world \<Rightarrow> webhook_req \<Rightarrow> nat \<times> credit_transaction \<Rightarrow> db \<Rightarrow> db \<times> response" where
  "order_webhook_write w req it s =
     (case it of (i, t) \<Rightarrow>
        (let s1 = (case profiles s (user_id t) of
                     None \<Rightarrow> s
                   | Some p \<Rightarrow> set_credits (user_id t) (credits p - amount t) s)
         in case o_id req of
              None \<Rightarrow> (s1, ServerError ''Webhook processing failed''
                             ''Cannot read properties of undefined'')
            | Some oid \<Rightarrow>
                (update_tx i (mark_completed w oid (o_order_number req)) s1, Finalized oid)))"

definition cancel_credits_read :: "cancel_req \<Rightarrow> db \<Rightarrow> response + nat \<times> credit_transaction" where
  "cancel_credits_read req s =
     (case (c_userId req, c_discountCode req) of
        (Some uid, Some code) \<Rightarrow>
          if uid = [] \<or> code = [] then Inl MissingUserOrCode
          else (case single (select_tx (\<lambda>t. user_id t = uid \<and> discount_code t = code
                                              \<and> status t = Pending) s) of
                  None \<Rightarrow> Inl TransactionNotFound
                | Some it \<Rightarrow> Inr it)
      | _ \<Rightarrow> Inl MissingUserOrCode)"

definition cancel_credits_write :: "world \<Rightarrow> cancel_req \<Rightarrow> nat \<times> credit_transaction \<Rightarrow> db \<Rightarrow> db \<times> response" where
  "cancel_credits_write w req it s =
     (case it of (i, t) \<Rightarrow>
        (delete_price_rule w (c_priceRuleId req) (update_tx i (mark_cancelled w) s),
         ServerError ''Failed to cancel credits'' ''restoredBalance is not defined''))"

section \<open>POST /api/cleanup-pending\<close>

text \<open>
  \<^verbatim>\<open>new Date()\<close> followed by \<^verbatim>\<open>setHours(getHours() - 24)\<close>: the hours are those
  of the local time of the server. The clock is turned into local time with the offset of
  that moment, 24 hours are taken off, and the result is turned back into UTC with the
  offset in effect at that local time. Where the two offsets agree this is 24 hours before
  the request; across a daylight-saving change it is 23 or 25 hours before.
\<close>

definition twentyFourHoursAgo :: "world \<Rightarrow> int" where
  "twentyFourHoursAgo w =
     (now w + local_offset w) - 24 * 60 * 60 * 1000 - local_offset_before w"

text \<open>
  The handler selects the old pending rows and, if there are any, cancels the rows that
  match the same filter.
\<close>

definition is_old_pending :: "world \<Rightarrow> credit_transaction \<Rightarrow> bool" where
  "is_old_pending w t = (status t = Pending \<and> created_at t < twentyFourHoursAgo w)"

definition cleanup_pending :: "world \<Rightarrow> db \<Rightarrow> db \<times> response" where
  "cleanup_pending w s =
     (let oldTransactions = select_tx (is_old_pending w) s in
      if length oldTransactions > 0 then
        (s\<lparr>credit_transactions :=
             map (\<lambda>t. if is_old_pending w t then mark_cancelled w t else t) (credit_transactions s)\<rparr>,
         CleanupCancelled (length oldTransactions))
      else (s, CleanupNothing))"

section \<open>Sequences of requests\<close>

text \<open>
  Requests that are handled one after the other, each handler running to its end before
  the next one starts.
\<close>

datatype op =
    Reserve world apply_req
  | Settle world webhook_req
  | Cancel world cancel_req
  | Sweep world

fun step :: "op \<Rightarrow> db \<Rightarrow> db" where
  "step (Reserve w r) s = fst (apply_credits w r s)"
| "step (Settle w r) s = fst (order_webhook w r s)"
| "step (Cancel w r) s = fst (cancel_credits w r s)"
| "step (Sweep w) s = fst (cleanup_pending w s)"

fun run :: "op list \<Rightarrow> db \<Rightarrow> db" where
  "run [] s = s"
| "run (x # xs) s = run xs (step x s)"

section \<open>Example data\<close>

text \<open>
  An account with a balance of 50.00 and no reservation yet; a world where the shop issues
  what it is asked for and the server runs on UTC; requests of that account; the paid
  order that carries a discount code, with a signature that matches.
\<close>

definition alice_db :: db where
  "alice_db = \<lparr>profiles = [''alice'' \<mapsto> \<lparr>email = ''alice@example.com'', credits = 5000\<rparr>],
               credit_transactions = [], shop = []\<rparr>"

definition shop_ok :: "int \<Rightarrow> string \<Rightarrow> nat \<Rightarrow> world" where
  "shop_ok t r rid = \<lparr>now = t, rnd = r, price_rule_created = Some rid, code_created = True,
                      price_rule_deleted = True, local_offset = 0, local_offset_before = 0\<rparr>"

definition reserve_req :: "int \<Rightarrow> apply_req" where
  "reserve_req a = \<lparr>creditAmount = Some a, userId = Some ''alice'', cartItems = Some [''coffee'']\<rparr>"

definition cancel_req_of :: "string \<Rightarrow> cancel_req" where
  "cancel_req_of code = \<lparr>c_userId = Some ''alice'', c_discountCode = Some code,
                          c_priceRuleId = None\<rparr>"

definition paid_event :: "string \<Rightarrow> nat \<Rightarrow> webhook_req" where
  "paid_event code oid = \<lparr>hmac_header = Some ''c2lnbmF0dXJl'', body_hmac = ''c2lnbmF0dXJl'',
                          discount_codes = [Some code], o_id = Some oid,
                          o_order_number = Some (string_of_nat oid)\<rparr>"

definition w1 :: world where "w1 = shop_ok 1730123456000 ''abc123'' 123456"
definition w2 :: world where "w2 = shop_ok 1730123457000 ''def456'' 123457"
definition w3 :: world where "w3 = shop_ok 1730123999000 ''ghi789'' 123458"

text \<open>
  The state after one reservation of 25.00, and the state after two reservations of 30.00
  of which the first is paid.
\<close>

definition reserved_db :: db where
  "reserved_db = run [Reserve w1 (reserve_req 2500)] alice_db"

definition overdrawn_db :: db where
  "overdrawn_db = run [Reserve w1 (reserve_req 3000), Reserve w2 (reserve_req 3000),
                       Settle w3 (paid_event ''CREDIT-1730123456000-abc123'' 1001)] alice_db"

text \<open>
  A server on the time of New York. At noon of 3 November 2024 (17:00 UTC) the clocks have
  gone back one hour in the night, and one reservation is 24 hours and 30 minutes old. At
  13:00 of 9 March 2025 (17:00 UTC) the clocks have gone forward one hour in the night, and
  one reservation is 23 hours and 30 minutes old.
\<close>

definition autumn_noon :: world where
  "autumn_noon = (shop_ok 1730653200000 ''jkl012'' 0)
                   \<lparr>local_offset := - 18000000, local_offset_before := - 14400000\<rparr>"

definition autumn_db :: db where
  "autumn_db = alice_db\<lparr>credit_transactions :=
     [(pending_row w1 ''alice'' 2500 123456)\<lparr>created_at := 1730565000000\<rparr>]\<rparr>"

definition spring_noon :: world where
  "spring_noon = (shop_ok 1741539600000 ''mno345'' 0)
                   \<lparr>local_offset := - 14400000, local_offset_before := - 18000000\<rparr>"

definition spring_db :: db where
  "spring_db = alice_db\<lparr>credit_transactions :=
     [(pending_row w1 ''alice'' 2500 123456)\<lparr>created_at := 1741455000000\<rparr>]\<rparr>"

section \<open>Facts about queries and updates\<close>

lemmas example_defs = alice_db_def shop_ok_def reserve_req_def cancel_req_of_def paid_event_def
  w1_def w2_def w3_def

lemmas handler_defs = apply_credits_def issue_and_record_def pending_row_def make_discount_code_def
  order_webhook_def cancel_credits_def cancel_credits_standalone_def cleanup_pending_def
  select_tx_def update_tx_def set_credits_def get_balance_def mark_completed_def mark_cancelled_def
  delete_price_rule_def startsWith_def is_old_pending_def twentyFourHoursAgo_def

lemmas eval_defs = example_defs handler_defs string_of_nat.simps

lemma map_snd_select_tx: "map snd (select_tx P s) = filter P (credit_transactions s)"
proof -
  have "filter P (map snd (enumerate 0 (credit_transactions s)))
        = map snd (filter (P \<circ> snd) (enumerate 0 (credit_transactions s)))"
    by (rule filter_map)
  then show ?thesis by (simp add: select_tx_def comp_def case_prod_unfold)
qed

lemma select_tx_empty: "select_tx P s = [] \<longleftrightarrow> filter P (credit_transactions s) = []"
  using map_snd_select_tx [of P s] by (metis map_is_Nil_conv)

lemma length_select_tx: "length (select_tx P s) = length (filter P (credit_transactions s))"
  using map_snd_select_tx [of P s] by (metis length_map)

lemma in_select_tx:
  "(i, t) \<in> set (select_tx P s) \<longleftrightarrow> i < length (credit_transactions s) \<and> credit_transactions s ! i = t \<and> P t"
  by (auto simp: select_tx_def in_set_enumerate_eq)

lemma filter_enumerate_none:
  "\<forall>t \<in> set xs. \<not> P t \<Longrightarrow> filter (\<lambda>(i, t). P t) (enumerate n xs) = []"
  by (auto simp: filter_empty_conv in_set_enumerate_eq)

lemma select_tx_no_match:
  "\<forall>t \<in> set (credit_transactions s). \<not> P t \<Longrightarrow> select_tx P s = []"
  by (simp add: select_tx_empty filter_empty_conv)

lemma single_SomeD: "single xs = Some x \<Longrightarrow> xs = [x]"
  by (cases xs rule: single.cases) auto

lemma single_select_tx:
  "single (select_tx P s) = Some (i, t) \<Longrightarrow>
     i < length (credit_transactions s) \<and> credit_transactions s ! i = t \<and> P t"
  using in_select_tx [of i t P s] by (auto dest: single_SomeD)

lemma select_tx_update_single:
  assumes sel: "select_tx P s = [(i, t)]" and np: "\<not> P t'"
    and upd: "credit_transactions s' = (credit_transactions s)[i := t']"
  shows "select_tx P s' = []"
proof -
  have "\<not> P x" if "x \<in> set (credit_transactions s')" for x
  proof -
    from that obtain j where j: "j < length (credit_transactions s)" "x = (credit_transactions s)[i := t'] ! j"
      by (auto simp: upd in_set_conv_nth)
    show ?thesis
    proof (cases "j = i")
      case True
      with j np show ?thesis by simp
    next
      case False
      with j have x: "x = credit_transactions s ! j" by simp
      show ?thesis
      proof
        assume "P x"
        with j x have "(j, x) \<in> set (select_tx P s)" by (simp add: in_select_tx)
        with sel False show False by simp
      qed
    qed
  qed
  then show ?thesis by (simp add: select_tx_empty filter_empty_conv)
qed

lemma credit_transactions_set_credits [simp]:
  "credit_transactions (set_credits u c s) = credit_transactions s"
  by (simp add: set_credits_def split: option.splits)

lemma credit_transactions_delete_price_rule [simp]:
  "credit_transactions (delete_price_rule w r s) = credit_transactions s"
  by (simp add: delete_price_rule_def split: option.splits)

lemma credit_transactions_update_tx [simp]:
  "credit_transactions (update_tx i f s) = (credit_transactions s)[i := f (credit_transactions s ! i)]"
  by (simp add: update_tx_def)

lemma profiles_update_tx [simp]: "profiles (update_tx i f s) = profiles s"
  by (simp add: update_tx_def)

lemma profiles_delete_price_rule [simp]: "profiles (delete_price_rule w r s) = profiles s"
  by (simp add: delete_price_rule_def split: option.splits)

lemma profiles_cleanup_pending: "profiles (fst (cleanup_pending w s)) = profiles s"
  by (simp add: cleanup_pending_def Let_def)

lemma shop_set_credits [simp]: "shop (set_credits u c s) = shop s"
  by (simp add: set_credits_def split: option.splits)

lemma get_balance_set_credits:
  "profiles s u = Some p \<Longrightarrow> get_balance (set_credits u c s) u = Some c"
  by (simp add: get_balance_def set_credits_def)

lemma get_balance_update_tx [simp]: "get_balance (update_tx i f s) u = get_balance s u"
  by (simp add: get_balance_def)

lemma get_balance_delete_price_rule [simp]: "get_balance (delete_price_rule w r s) u = get_balance s u"
  by (simp add: get_balance_def)

lemma make_discount_code_w1: "make_discount_code w1 = ''CREDIT-1730123456000-abc123''"
  by (simp add: make_discount_code_def w1_def shop_ok_def string_of_nat.simps)

section \<open>What the handlers do to the table of reservations\<close>

text \<open>
  Each handler run from its start to its end, and sequences of such runs: a row that is
  completed or cancelled stays as it is, and a request made twice does nothing the second
  time.
\<close>

lemma apply_credits_rows:
  "credit_transactions (fst (apply_credits w r s)) = credit_transactions s
   \<or> (\<exists>t. credit_transactions (fst (apply_credits w r s)) = credit_transactions s @ [t])"
  by (auto simp: apply_credits_def issue_and_record_def split: option.splits)

lemma order_webhook_rows:
  "credit_transactions (fst (order_webhook w r s)) = credit_transactions s
   \<or> (\<exists>i t'. i < length (credit_transactions s) \<and> status (credit_transactions s ! i) = Pending
        \<and> credit_transactions (fst (order_webhook w r s)) = (credit_transactions s)[i := t'])"
  by (auto simp: order_webhook_def Let_def split: option.splits dest!: single_select_tx)

lemma cancel_credits_rows:
  "credit_transactions (fst (cancel_credits w r s)) = credit_transactions s
   \<or> (\<exists>i t'. i < length (credit_transactions s) \<and> status (credit_transactions s ! i) = Pending
        \<and> credit_transactions (fst (cancel_credits w r s)) = (credit_transactions s)[i := t'])"
  by (auto simp: cancel_credits_def split: option.splits dest!: single_select_tx)

lemma cleanup_pending_rows:
  "credit_transactions (fst (cleanup_pending w s))
     = map (\<lambda>t. if is_old_pending w t then mark_cancelled w t else t) (credit_transactions s)"
proof (cases "filter (is_old_pending w) (credit_transactions s) = []")
  case True
  then have "map (\<lambda>t. if is_old_pending w t then mark_cancelled w t else t) (credit_transactions s)
             = credit_transactions s"
    by (simp add: filter_empty_conv map_idI)
  with True show ?thesis by (simp add: cleanup_pending_def select_tx_empty)
next
  case False
  then show ?thesis by (simp add: cleanup_pending_def select_tx_empty Let_def)
qed

lemma step_keeps_terminal:
  assumes "i < length (credit_transactions s)" and "status (credit_transactions s ! i) \<noteq> Pending"
  shows "i < length (credit_transactions (step x s))
    \<and> credit_transactions (step x s) ! i = credit_transactions s ! i"
proof (cases x)
  case (Reserve w r)
  with assms apply_credits_rows [of w r s] show ?thesis by (auto simp: nth_append)
next
  case (Settle w r)
  with assms order_webhook_rows [of w r s] show ?thesis by (auto simp: nth_list_update)
next
  case (Cancel w r)
  with assms cancel_credits_rows [of w r s] show ?thesis by (auto simp: nth_list_update)
next
  case (Sweep w)
  with assms show ?thesis by (simp add: cleanup_pending_rows is_old_pending_def)
qed

lemma run_keeps_terminal:
  "i < length (credit_transactions s) \<Longrightarrow> status (credit_transactions s ! i) \<noteq> Pending \<Longrightarrow>
   i < length (credit_transactions (run ops s))
   \<and> credit_transactions (run ops s) ! i = credit_transactions s ! i"
proof (induction ops arbitrary: s)
  case Nil
  then show ?case by simp
next
  case (Cons x ops)
  from step_keeps_terminal [OF Cons.prems, of x]
  have a: "i < length (credit_transactions (step x s))"
    and b: "credit_transactions (step x s) ! i = credit_transactions s ! i" by simp_all
  from Cons.prems b have c: "status (credit_transactions (step x s) ! i) \<noteq> Pending" by simp
  from Cons.IH [OF a c] b show ?case by simp
qed

lemma order_webhook_twice:
  assumes "order_webhook w ev s = (s1, Finalized oid)"
  shows "order_webhook w' ev s1 = (s1, AlreadyProcessed)"
proof -
  from assms obtain code i t where
    h: "Some (body_hmac ev) = hmac_header ev" "creditDiscount (discount_codes ev) = Some code"
    and sel: "single (select_tx (\<lambda>t. discount_code t = code \<and> status t = Pending) s) = Some (i, t)"
    and rows: "credit_transactions s1 = (credit_transactions s)[i := mark_completed w oid (o_order_number ev) (credit_transactions s ! i)]"
    by (auto simp: order_webhook_def Let_def split: option.splits if_splits)
  from sel have "select_tx (\<lambda>t. discount_code t = code \<and> status t = Pending) s = [(i, t)]"
    by (rule single_SomeD)
  then have "select_tx (\<lambda>t. discount_code t = code \<and> status t = Pending) s1 = []"
    by (rule select_tx_update_single) (simp_all add: rows mark_completed_def)
  with h show ?thesis by (simp add: order_webhook_def)
qed

lemma cancel_credits_twice:
  assumes "cancel_credits w rq s = (s1, r)" and "r \<noteq> MissingUserOrCode"
  shows "cancel_credits w' rq s1 = (s1, TransactionNotFound)"
proof -
  from assms obtain uid code where
    h: "c_userId rq = Some uid" "c_discountCode rq = Some code" "uid \<noteq> []" "code \<noteq> []"
    by (auto simp: cancel_credits_def split: option.splits if_splits)
  let ?P = "\<lambda>t. user_id t = uid \<and> discount_code t = code \<and> status t = Pending"
  show ?thesis
  proof (cases "single (select_tx ?P s)")
    case None
    with assms h have "s1 = s" by (simp add: cancel_credits_def)
    with None h show ?thesis by (simp add: cancel_credits_def)
  next
    case (Some a)
    obtain i t where a: "a = (i, t)" by (cases a)
    from Some a assms h have rows:
      "credit_transactions s1 = (credit_transactions s)[i := mark_cancelled w (credit_transactions s ! i)]"
      by (auto simp: cancel_credits_def)
    from Some a have "select_tx ?P s = [(i, t)]" by (simp add: single_SomeD)
    then have "select_tx ?P s1 = []"
      by (rule select_tx_update_single) (simp_all add: rows mark_cancelled_def)
    with h show ?thesis by (simp add: cancel_credits_def)
  qed
qed

lemma cleanup_pending_twice:
  assumes "cleanup_pending w s = (s1, r)"
  shows "cleanup_pending w s1 = (s1, CleanupNothing)"
proof -
  from assms have "credit_transactions s1
      = map (\<lambda>t. if is_old_pending w t then mark_cancelled w t else t) (credit_transactions s)"
    using cleanup_pending_rows [of w s] by simp
  then have "filter (is_old_pending w) (credit_transactions s1) = []"
    by (auto simp: filter_empty_conv is_old_pending_def mark_cancelled_def)
  then show ?thesis by (simp add: cleanup_pending_def select_tx_empty)
qed

section \<open>Reserve, settle, settle again\<close>

text \<open>
  \<^bold>\<open>C1.\<close> The account holds 50.00. Reserving 25.00 succeeds and returns the discount
  code, and the balance still reads 50.00. The webhook of a paid order that carries the
  code makes the balance 25.00 and the reservation completed. The same webhook delivered
  again is answered \<^verbatim>\<open>Transaction already processed\<close> and changes nothing: the balance
  remains 25.00. (The code of the new reservation is not the code of an older pending one.)
\<close>

theorem reserve_then_settle_scenario:
  assumes acct: "profiles s u = Some p" "credits p = 5000"
    and req: "userId req = Some u" "u \<noteq> []" "creditAmount req = Some 2500"
      "cartItems req = Some items"
    and issuer: "price_rule_created w = Some rid" "code_created w"
    and fresh: "\<forall>t \<in> set (credit_transactions s).
                  \<not> (discount_code t = make_discount_code w \<and> status t = Pending)"
    and ev: "hmac_header ev = Some (body_hmac ev)"
      "creditDiscount (discount_codes ev) = Some (make_discount_code w)"
      "o_id ev = Some oid"
    and r1: "apply_credits w req s = (s1, r1)"
    and r2: "order_webhook wa ev s1 = (s2, r2)"
    and r3: "order_webhook wb ev s2 = (s3, r3)"
  shows "r1 = ApplySuccess (make_discount_code w) 2500 5000 rid
    \<and> get_balance s1 u = Some 5000
    \<and> r2 = Finalized oid
    \<and> get_balance s2 u = Some 2500
    \<and> status (credit_transactions s2 ! length (credit_transactions s)) = Completed
    \<and> r3 = AlreadyProcessed \<and> s3 = s2
    \<and> get_balance s3 u = Some 2500"
proof -
  let ?row = "pending_row w u 2500 rid"
  let ?P = "\<lambda>t. discount_code t = make_discount_code w \<and> status t = Pending"
  let ?n = "length (credit_transactions s)"
  have s1: "s1 = s\<lparr>shop := shop s @ [\<lparr>pr_id = rid, pr_amount = 2500, pr_codes = [make_discount_code w]\<rparr>],
                    credit_transactions := credit_transactions s @ [?row]\<rparr>"
    and r1': "r1 = ApplySuccess (make_discount_code w) 2500 5000 rid"
    using r1 acct req issuer by (auto simp: apply_credits_def issue_and_record_def)
  have sel1: "select_tx ?P s1 = [(?n, ?row)]"
    using fresh by (simp add: s1 select_tx_def enumerate_append_eq filter_enumerate_none pending_row_def)
  have prof1: "profiles s1 u = Some p" by (simp add: s1 acct)
  let ?done = "mark_completed wa oid (o_order_number ev) ?row"
  have s2: "s2 = s1\<lparr>profiles := (profiles s)(u \<mapsto> p\<lparr>credits := 2500\<rparr>),
                     credit_transactions := credit_transactions s @ [?done]\<rparr>"
    and r2': "r2 = Finalized oid"
    using r2 ev sel1 prof1 acct
    by (auto simp: order_webhook_def set_credits_def update_tx_def s1 pending_row_def)
  have sel2: "select_tx ?P s2 = []"
    using fresh by (simp add: s2 s1 select_tx_def enumerate_append_eq filter_enumerate_none mark_completed_def)
  have r3': "s3 = s2" "r3 = AlreadyProcessed"
    using r3 ev sel2 by (auto simp: order_webhook_def)
  show ?thesis
    using r1' r2' r3' acct
    by (simp add: s1 s2 get_balance_def mark_completed_def)
qed

theorem reserve_then_settle_scenario_witness:
  "snd (apply_credits w1 (reserve_req 2500) alice_db)
     = ApplySuccess ''CREDIT-1730123456000-abc123'' 2500 5000 123456
   \<and> get_balance (run [Reserve w1 (reserve_req 2500)] alice_db) ''alice'' = Some 5000
   \<and> get_balance (run [Reserve w1 (reserve_req 2500),
                        Settle w2 (paid_event ''CREDIT-1730123456000-abc123'' 1001)] alice_db) ''alice''
       = Some 2500
   \<and> map status (credit_transactions
        (run [Reserve w1 (reserve_req 2500),
              Settle w2 (paid_event ''CREDIT-1730123456000-abc123'' 1001)] alice_db)) = [Completed]
   \<and> order_webhook w3 (paid_event ''CREDIT-1730123456000-abc123'' 1001)
        (run [Reserve w1 (reserve_req 2500),
              Settle w2 (paid_event ''CREDIT-1730123456000-abc123'' 1001)] alice_db)
       = (run [Reserve w1 (reserve_req 2500),
               Settle w2 (paid_event ''CREDIT-1730123456000-abc123'' 1001)] alice_db,
          AlreadyProcessed)"
proof -
  let ?ev = "paid_event ''CREDIT-1730123456000-abc123'' 1001"
  let ?s1 = "fst (apply_credits w1 (reserve_req 2500) alice_db)"
  let ?s2 = "fst (order_webhook w2 ?ev ?s1)"
  let ?s3 = "fst (order_webhook w3 ?ev ?s2)"
  have acct: "profiles alice_db ''alice'' = Some \<lparr>email = ''alice@example.com'', credits = 5000\<rparr>"
    by (simp add: alice_db_def)
  have ev: "creditDiscount (discount_codes ?ev) = Some (make_discount_code w1)"
    by (simp add: make_discount_code_w1 paid_event_def startsWith_def)
  have r1: "apply_credits w1 (reserve_req 2500) alice_db = (?s1, snd (apply_credits w1 (reserve_req 2500) alice_db))"
    and r2: "order_webhook w2 ?ev ?s1 = (?s2, snd (order_webhook w2 ?ev ?s1))"
    and r3: "order_webhook w3 ?ev ?s2 = (?s3, snd (order_webhook w3 ?ev ?s2))"
    by simp_all
  have len: "length (credit_transactions alice_db) = 0" by (simp add: alice_db_def)
  have n1: "length (credit_transactions ?s2) = 1"
    by (simp add: handler_defs example_defs string_of_nat.simps)
  from reserve_then_settle_scenario [OF acct _ _ _ _ _ _ _ _ _ ev _ r1 r2 r3,
      of "[''coffee'']" 123456 1001]
  have "snd (apply_credits w1 (reserve_req 2500) alice_db) = ApplySuccess (make_discount_code w1) 2500 5000 123456
    \<and> get_balance ?s1 ''alice'' = Some 5000
    \<and> snd (order_webhook w2 ?ev ?s1) = Finalized 1001
    \<and> get_balance ?s2 ''alice'' = Some 2500
    \<and> status (credit_transactions ?s2 ! length (credit_transactions alice_db)) = Completed
    \<and> snd (order_webhook w3 ?ev ?s2) = AlreadyProcessed \<and> ?s3 = ?s2
    \<and> get_balance ?s3 ''alice'' = Some 2500"
    by (simp add: reserve_req_def w1_def shop_ok_def alice_db_def paid_event_def)
  moreover have "map status (credit_transactions ?s2) = [status (credit_transactions ?s2 ! 0)]"
    using n1 by (cases "credit_transactions ?s2") auto
  ultimately show ?thesis
    using r3 by (simp add: make_discount_code_w1 len)
qed

section \<open>Terminal states\<close>

text \<open>
  Each handler is its first half followed by its second half on the same state, when no
  other request comes between them.
\<close>

lemma order_webhook_split:
  "order_webhook w req s =
     (case order_webhook_read req s of
        Inl r \<Rightarrow> (s, r)
      | Inr it \<Rightarrow> order_webhook_write w req it s)"
  by (simp add: order_webhook_def order_webhook_read_def order_webhook_write_def
      split: option.splits prod.splits)

lemma cancel_credits_split:
  "cancel_credits w req s =
     (case cancel_credits_read req s of
        Inl r \<Rightarrow> (s, r)
      | Inr it \<Rightarrow> cancel_credits_write w req it s)"
  by (simp add: cancel_credits_def cancel_credits_read_def cancel_credits_write_def
      split: option.splits prod.splits)

text \<open>
  \<^bold>\<open>C2.\<close> A reservation can change state twice. The webhook of the paid order reads
  the pending reservation; before it goes on, a cancellation of the same reservation runs
  and makes it cancelled; the webhook then debits the account and writes completed over
  cancelled, since its update names the row by id alone. In the other order, a cancellation
  that has read the pending reservation writes cancelled over a reservation that the
  webhook has completed and debited in between.
\<close>

theorem interleaved_requests_change_terminal_state:
  "map status (credit_transactions reserved_db) = [Pending]
   \<and> order_webhook_read (paid_event ''CREDIT-1730123456000-abc123'' 1001) reserved_db
       = Inr (0, pending_row w1 ''alice'' 2500 123456)
   \<and> map status (credit_transactions
        (fst (cancel_credits w2 (cancel_req_of ''CREDIT-1730123456000-abc123'') reserved_db)))
       = [Cancelled]
   \<and> map status (credit_transactions
        (fst (order_webhook_write w3 (paid_event ''CREDIT-1730123456000-abc123'' 1001)
                (0, pending_row w1 ''alice'' 2500 123456)
                (fst (cancel_credits w2 (cancel_req_of ''CREDIT-1730123456000-abc123'') reserved_db)))))
       = [Completed]
   \<and> get_balance
        (fst (order_webhook_write w3 (paid_event ''CREDIT-1730123456000-abc123'' 1001)
                (0, pending_row w1 ''alice'' 2500 123456)
                (fst (cancel_credits w2 (cancel_req_of ''CREDIT-1730123456000-abc123'') reserved_db))))
        ''alice'' = Some 2500
   \<and> cancel_credits_read (cancel_req_of ''CREDIT-1730123456000-abc123'') reserved_db
       = Inr (0, pending_row w1 ''alice'' 2500 123456)
   \<and> map status (credit_transactions
        (fst (order_webhook w2 (paid_event ''CREDIT-1730123456000-abc123'' 1001) reserved_db)))
       = [Completed]
   \<and> map status (credit_transactions
        (fst (cancel_credits_write w3 (cancel_req_of ''CREDIT-1730123456000-abc123'')
                (0, pending_row w1 ''alice'' 2500 123456)
                (fst (order_webhook w2 (paid_event ''CREDIT-1730123456000-abc123'' 1001) reserved_db)))))
       = [Cancelled]"
  by (simp add: reserved_db_def eval_defs order_webhook_read_def order_webhook_write_def
      cancel_credits_read_def cancel_credits_write_def)

section \<open>The balance after a sequence of requests\<close>

text \<open>
  \<^bold>\<open>C3.\<close> The balance can become negative. From a balance of 50.00, two reservations
  of 30.00 are both accepted, since the check of the reservation reads the balance alone,
  and the webhook subtracts each amount without a check: after both orders are paid the
  balance reads -10.00.
\<close>

theorem double_settle_goes_negative:
  "get_balance alice_db ''alice'' = Some 5000
   \<and> get_balance
       (run [Reserve w1 (reserve_req 3000), Reserve w2 (reserve_req 3000),
             Settle w3 (paid_event ''CREDIT-1730123456000-abc123'' 1001),
             Settle w3 (paid_event ''CREDIT-1730123457000-def456'' 1002)] alice_db) ''alice''
     = Some (- 1000)"
  by (simp add: eval_defs)

section \<open>Settlement with an insufficient balance\<close>

text \<open>
  \<^bold>\<open>C4.\<close> The webhook has no failure for a ledger inconsistency. An authentic event
  with an order id, whose code belongs to exactly one pending reservation of an existing
  account, is always answered \<^verbatim>\<open>Credits finalized and deducted\<close>, and the reservation
  becomes completed; when the amount is at most the balance read at that moment, the
  balance written is the difference, which is not negative.
\<close>

theorem settle_never_rejects:
  assumes "hmac_header ev = Some (body_hmac ev)"
    and "creditDiscount (discount_codes ev) = Some code"
    and "o_id ev = Some oid"
    and "single (select_tx (\<lambda>t. discount_code t = code \<and> status t = Pending) s) = Some (i, t)"
    and "profiles s (user_id t) = Some p"
  shows "snd (order_webhook w ev s) = Finalized oid
    \<and> status (credit_transactions (fst (order_webhook w ev s)) ! i) = Completed
    \<and> (amount t \<le> credits p \<longrightarrow>
          get_balance (fst (order_webhook w ev s)) (user_id t) = Some (credits p - amount t)
          \<and> 0 \<le> credits p - amount t)"
proof -
  from assms(4) have i: "i < length (credit_transactions s)"
    by (auto dest: single_select_tx)
  from assms have run: "order_webhook w ev s
      = (update_tx i (mark_completed w oid (o_order_number ev))
           (set_credits (user_id t) (credits p - amount t) s), Finalized oid)"
    by (simp add: order_webhook_def)
  from i show ?thesis
    by (simp add: run get_balance_set_credits assms(5) mark_completed_def)
qed

theorem settle_never_rejects_witness:
  "snd (order_webhook w2 (paid_event ''CREDIT-1730123456000-abc123'' 1001) reserved_db) = Finalized 1001
   \<and> status (credit_transactions
        (fst (order_webhook w2 (paid_event ''CREDIT-1730123456000-abc123'' 1001) reserved_db)) ! 0)
       = Completed
   \<and> get_balance
        (fst (order_webhook w2 (paid_event ''CREDIT-1730123456000-abc123'' 1001) reserved_db)) ''alice''
       = Some 2500"
proof -
  let ?ev = "paid_event ''CREDIT-1730123456000-abc123'' 1001"
  have sel: "single (select_tx (\<lambda>t. discount_code t = ''CREDIT-1730123456000-abc123''
                                      \<and> status t = Pending) reserved_db)
             = Some (0, pending_row w1 ''alice'' 2500 123456)"
    by (simp add: reserved_db_def eval_defs)
  have acct: "profiles reserved_db (user_id (pending_row w1 ''alice'' 2500 123456))
              = Some \<lparr>email = ''alice@example.com'', credits = 5000\<rparr>"
    by (simp add: reserved_db_def eval_defs)
  have ev: "hmac_header ?ev = Some (body_hmac ?ev)"
    "creditDiscount (discount_codes ?ev) = Some ''CREDIT-1730123456000-abc123''"
    "o_id ?ev = Some 1001"
    by (simp_all add: paid_event_def startsWith_def)
  from settle_never_rejects [OF ev sel acct, of w2]
  show ?thesis by (simp add: pending_row_def)
qed

text \<open>
  A settlement that overdraws is not rejected: with a balance of 20.00 and a pending
  reservation of 30.00, the webhook is answered \<^verbatim>\<open>Credits finalized and deducted\<close>.
\<close>

theorem settle_overdraws_counterexample:
  "get_balance overdrawn_db ''alice'' = Some 2000
   \<and> map (\<lambda>t. (amount t, status t)) (credit_transactions overdrawn_db) = [(3000, Completed), (3000, Pending)]
   \<and> snd (order_webhook w3 (paid_event ''CREDIT-1730123457000-def456'' 1002) overdrawn_db)
       = Finalized 1002
   \<and> get_balance (fst (order_webhook w3 (paid_event ''CREDIT-1730123457000-def456'' 1002)
                          overdrawn_db)) ''alice'' = Some (- 1000)"
  by (simp add: overdrawn_db_def eval_defs)

section \<open>Reserving more than the balance\<close>

text \<open>
  \<^bold>\<open>C5.\<close> A reservation of an amount strictly greater than the balance of the account
  is answered with \<^verbatim>\<open>Insufficient credits\<close> (status 400), and the whole state is left
  as it was: no price rule or discount code at the shop, no row in
  \<^verbatim>\<open>credit_transactions\<close>, no change of a balance. The amount is not 0, which is
  turned away before as a missing field; an amount above a balance that is not negative
  never is.
\<close>

theorem reserve_insufficient:
  assumes "profiles s u = Some p"
    and "userId req = Some u" and "u \<noteq> []"
    and "creditAmount req = Some a" and "a \<noteq> 0" and "cartItems req = Some items"
    and "credits p < a"
  shows "apply_credits w req s = (s, InsufficientCredits (credits p) a)"
  using assms by (simp add: apply_credits_def)

theorem reserve_insufficient_witness:
  "apply_credits w1 (reserve_req 7500) alice_db = (alice_db, InsufficientCredits 5000 7500)"
proof -
  have "profiles alice_db ''alice'' = Some \<lparr>email = ''alice@example.com'', credits = 5000\<rparr>"
    by (simp add: alice_db_def)
  from reserve_insufficient [OF this, of "reserve_req 7500" 7500 "[''coffee'']" w1]
  show ?thesis by (simp add: reserve_req_def)
qed

section \<open>Cancellation and the balance\<close>

text \<open>
  \<^bold>\<open>C6.\<close> The cancel handler of \<^verbatim>\<open>src/index.js\<close> and the sweep move a pending
  reservation to cancelled and leave every balance as it is. The standalone handler
  \<^verbatim>\<open>src/api/cancel-credits.js\<close> moves it to cancelled too, but writes the balance plus
  the amount of the reservation.
\<close>

theorem cancellation_and_balance:
  assumes "c_userId rq = Some uid" and "uid \<noteq> []"
    and "c_discountCode rq = Some code" and "code \<noteq> []"
    and "single (select_tx (\<lambda>t. user_id t = uid \<and> discount_code t = code \<and> status t = Pending) s)
         = Some (i, t)"
  shows "status (credit_transactions (fst (cancel_credits w rq s)) ! i) = Cancelled
    \<and> profiles (fst (cancel_credits w rq s)) = profiles s
    \<and> (\<forall>j < length (credit_transactions s).
          is_old_pending w' (credit_transactions s ! j) \<longrightarrow>
            status (credit_transactions (fst (cleanup_pending w' s)) ! j) = Cancelled)
    \<and> profiles (fst (cleanup_pending w' s)) = profiles s
    \<and> (\<forall>p. profiles s uid = Some p \<longrightarrow>
          status (credit_transactions (fst (cancel_credits_standalone w POST rq s)) ! i) = Cancelled
          \<and> get_balance (fst (cancel_credits_standalone w POST rq s)) uid
              = Some (credits p + amount t))"
proof -
  from assms(5) have i: "i < length (credit_transactions s)"
    by (auto dest: single_select_tx)
  have a: "cancel_credits w rq s
      = (delete_price_rule w (c_priceRuleId rq) (update_tx i (mark_cancelled w) s),
         ServerError ''Failed to cancel credits'' ''restoredBalance is not defined'')"
    using assms by (simp add: cancel_credits_def)
  have b: "cancel_credits_standalone w POST rq s
      = (delete_price_rule w (c_priceRuleId rq)
           (update_tx i (mark_cancelled w) (set_credits uid (credits p + amount t) s)),
         CancelSuccess (amount t) (credits p + amount t))"
    if "profiles s uid = Some p" for p
    using assms that by (simp add: cancel_credits_standalone_def)
  have c: "status (credit_transactions (fst (cleanup_pending w' s)) ! j) = Cancelled"
    if "j < length (credit_transactions s)" "is_old_pending w' (credit_transactions s ! j)" for j
    using that by (simp add: cleanup_pending_rows mark_cancelled_def)
  from i show ?thesis
    by (auto simp: a b c mark_cancelled_def get_balance_set_credits profiles_cleanup_pending)
qed

theorem cancellation_and_balance_witness:
  "status (credit_transactions
      (fst (cancel_credits w2 (cancel_req_of ''CREDIT-1730123456000-abc123'') reserved_db)) ! 0) = Cancelled
   \<and> get_balance (fst (cancel_credits w2 (cancel_req_of ''CREDIT-1730123456000-abc123'') reserved_db))
        ''alice'' = Some 5000
   \<and> is_old_pending (shop_ok 1830123999000 ''x'' 0) (credit_transactions reserved_db ! 0)
   \<and> status (credit_transactions
        (fst (cleanup_pending (shop_ok 1830123999000 ''x'' 0) reserved_db)) ! 0) = Cancelled
   \<and> get_balance (fst (cleanup_pending (shop_ok 1830123999000 ''x'' 0) reserved_db)) ''alice''
        = Some 5000
   \<and> status (credit_transactions
        (fst (cancel_credits_standalone w2 POST (cancel_req_of ''CREDIT-1730123456000-abc123'')
                reserved_db)) ! 0) = Cancelled
   \<and> get_balance
        (fst (cancel_credits_standalone w2 POST (cancel_req_of ''CREDIT-1730123456000-abc123'')
                reserved_db)) ''alice'' = Some 7500"
proof -
  let ?rq = "cancel_req_of ''CREDIT-1730123456000-abc123''"
  let ?late = "shop_ok 1830123999000 ''x'' 0"
  have rq: "c_userId ?rq = Some ''alice''" "''alice'' \<noteq> []"
    "c_discountCode ?rq = Some ''CREDIT-1730123456000-abc123''" "''CREDIT-1730123456000-abc123'' \<noteq> []"
    by (simp_all add: cancel_req_of_def)
  have sel: "single (select_tx (\<lambda>t. user_id t = ''alice''
                \<and> discount_code t = ''CREDIT-1730123456000-abc123'' \<and> status t = Pending) reserved_db)
             = Some (0, pending_row w1 ''alice'' 2500 123456)"
    by (simp add: reserved_db_def eval_defs)
  have acct: "profiles reserved_db ''alice'' = Some \<lparr>email = ''alice@example.com'', credits = 5000\<rparr>"
    by (simp add: reserved_db_def eval_defs)
  have old: "0 < length (credit_transactions reserved_db)"
    "is_old_pending ?late (credit_transactions reserved_db ! 0)"
    by (simp_all add: reserved_db_def eval_defs)
  note t = cancellation_and_balance [OF rq sel, of w2 ?late]
  from t have "status (credit_transactions (fst (cancel_credits w2 ?rq reserved_db)) ! 0) = Cancelled"
    by blast
  moreover from t acct have "get_balance (fst (cancel_credits w2 ?rq reserved_db)) ''alice'' = Some 5000"
    by (simp add: get_balance_def)
  moreover from t old
  have "status (credit_transactions (fst (cleanup_pending ?late reserved_db)) ! 0) = Cancelled"
    by blast
  moreover from t acct have "get_balance (fst (cleanup_pending ?late reserved_db)) ''alice'' = Some 5000"
    by (simp add: get_balance_def)
  moreover from t acct
  have "status (credit_transactions (fst (cancel_credits_standalone w2 POST ?rq reserved_db)) ! 0) = Cancelled
    \<and> get_balance (fst (cancel_credits_standalone w2 POST ?rq reserved_db)) ''alice''
        = Some (5000 + amount (pending_row w1 ''alice'' 2500 123456))"
    by simp
  ultimately show ?thesis using old by (simp add: pending_row_def)
qed

text \<open>
  Cancelling a reservation of 25.00 through the standalone handler turns a balance of
  50.00 into 75.00.
\<close>

theorem standalone_cancel_credits_counterexample:
  "get_balance reserved_db ''alice'' = Some 5000
   \<and> map (\<lambda>t. (amount t, status t)) (credit_transactions reserved_db) = [(2500, Pending)]
   \<and> snd (cancel_credits_standalone w2 POST (cancel_req_of ''CREDIT-1730123456000-abc123'') reserved_db)
       = CancelSuccess 2500 7500
   \<and> get_balance
        (fst (cancel_credits_standalone w2 POST (cancel_req_of ''CREDIT-1730123456000-abc123'')
                reserved_db)) ''alice'' = Some 7500"
  by (simp add: reserved_db_def eval_defs)

section \<open>The answer of a cancellation\<close>

text \<open>
  \<^bold>\<open>C7.\<close> Cancelling an existing pending reservation of the account through the
  handler of \<^verbatim>\<open>src/index.js\<close> cancels the row, and then answers 500
  \<^verbatim>\<open>Failed to cancel credits\<close>: the success response reads \<^verbatim>\<open>restoredBalance\<close>,
  which is not declared there.
\<close>

theorem cancel_credits_answers_500:
  "map (\<lambda>t. (amount t, status t)) (credit_transactions reserved_db) = [(2500, Pending)]
   \<and> snd (cancel_credits w2 (cancel_req_of ''CREDIT-1730123456000-abc123'') reserved_db)
       = ServerError ''Failed to cancel credits'' ''restoredBalance is not defined''
   \<and> http_status (snd (cancel_credits w2 (cancel_req_of ''CREDIT-1730123456000-abc123'') reserved_db))
       = 500
   \<and> map (\<lambda>t. (amount t, status t))
        (credit_transactions
           (fst (cancel_credits w2 (cancel_req_of ''CREDIT-1730123456000-abc123'') reserved_db)))
       = [(2500, Cancelled)]"
  by (simp add: reserved_db_def eval_defs)

section \<open>Failure between the price rule and the reservation\<close>

text \<open>
  \<^bold>\<open>C8.\<close> A reservation makes no rollback. When the shop has issued the price rule and
  then fails to create the discount code, the request is answered 500; no reservation is
  recorded and no balance changes; the price rule stays at the shop.
\<close>

theorem reserve_has_no_rollback:
  assumes "profiles s u = Some p"
    and "userId req = Some u" and "u \<noteq> []"
    and "creditAmount req = Some a" and "a \<noteq> 0" and "cartItems req = Some items"
    and "a \<le> credits p"
    and "price_rule_created w = Some rid" and "\<not> code_created w"
  shows "apply_credits w req s
     = (s\<lparr>shop := shop s @ [\<lparr>pr_id = rid, pr_amount = a, pr_codes = []\<rparr>]\<rparr>,
        ServerError ''Failed to apply credits'' ''Failed to create discount code'')"
  using assms by (simp add: apply_credits_def issue_and_record_def)

theorem reserve_has_no_rollback_witness:
  "apply_credits (w1\<lparr>code_created := False\<rparr>) (reserve_req 2500) alice_db
     = (alice_db\<lparr>shop := [\<lparr>pr_id = 123456, pr_amount = 2500, pr_codes = []\<rparr>]\<rparr>,
        ServerError ''Failed to apply credits'' ''Failed to create discount code'')"
proof -
  have acct: "profiles alice_db ''alice'' = Some \<lparr>email = ''alice@example.com'', credits = 5000\<rparr>"
    by (simp add: alice_db_def)
  from reserve_has_no_rollback [OF acct, of "reserve_req 2500" 2500 "[''coffee'']"
      "w1\<lparr>code_created := False\<rparr>" 123456]
  show ?thesis by (simp add: reserve_req_def w1_def shop_ok_def alice_db_def)
qed

text \<open>
  After such a failure the shop holds a price rule, and the table holds no reservation.
\<close>

theorem orphaned_price_rule_counterexample:
  "http_status (snd (apply_credits (w1\<lparr>code_created := False\<rparr>) (reserve_req 2500) alice_db)) = 500
   \<and> shop alice_db = []
   \<and> shop (fst (apply_credits (w1\<lparr>code_created := False\<rparr>) (reserve_req 2500) alice_db))
       = [\<lparr>pr_id = 123456, pr_amount = 2500, pr_codes = []\<rparr>]
   \<and> credit_transactions
        (fst (apply_credits (w1\<lparr>code_created := False\<rparr>) (reserve_req 2500) alice_db)) = []"
  by (simp add: eval_defs)

section \<open>The sweep\<close>

text \<open>
  The sweep cancels the pending reservations created before its cutoff, stamping the time
  of the cancellation, and leaves every other row as it is; it touches no balance and no
  price rule; the count it returns is the number of reservations it moved from pending to
  cancelled. The cutoff is 24 hours before the request where the offset of the local time
  is the same at both moments.
\<close>

lemma cleanup_pending_by_cutoff:
  assumes "cleanup_pending w s = (s', r)"
  shows "length (credit_transactions s') = length (credit_transactions s)
    \<and> (\<forall>i < length (credit_transactions s).
          (status (credit_transactions s ! i) = Pending
             \<and> created_at (credit_transactions s ! i) < twentyFourHoursAgo w
           \<longrightarrow> credit_transactions s' ! i
                 = (credit_transactions s ! i)\<lparr>status := Cancelled, cancelled_at := Some (now w)\<rparr>)
        \<and> (\<not> (status (credit_transactions s ! i) = Pending
                \<and> created_at (credit_transactions s ! i) < twentyFourHoursAgo w)
           \<longrightarrow> credit_transactions s' ! i = credit_transactions s ! i))
    \<and> profiles s' = profiles s \<and> shop s' = shop s
    \<and> transactions_count r
        = card {i. i < length (credit_transactions s)
                  \<and> status (credit_transactions s ! i) = Pending
                  \<and> status (credit_transactions s' ! i) = Cancelled}"
proof (cases "filter (is_old_pending w) (credit_transactions s) = []")
  case True
  then have none: "\<forall>t \<in> set (credit_transactions s). \<not> is_old_pending w t"
    by (simp add: filter_empty_conv)
  from True have eq: "s' = s" "r = CleanupNothing"
    using assms by (simp_all add: cleanup_pending_def select_tx_empty)
  have "{i. i < length (credit_transactions s)
                  \<and> status (credit_transactions s ! i) = Pending
                  \<and> status (credit_transactions s ! i) = Cancelled} = {}" by auto
  with none eq show ?thesis
    by (auto simp: is_old_pending_def)
next
  case False
  let ?xs = "credit_transactions s"
  let ?f = "\<lambda>t. if is_old_pending w t then mark_cancelled w t else t"
  from False have eq: "s' = s\<lparr>credit_transactions := map ?f ?xs\<rparr>"
     "r = CleanupCancelled (length (filter (is_old_pending w) ?xs))"
    using assms by (simp_all add: cleanup_pending_def length_select_tx select_tx_empty Let_def)
  have set_eq: "{i. i < length ?xs \<and> status (?xs ! i) = Pending \<and> status (map ?f ?xs ! i) = Cancelled}
     = {i. i < length ?xs \<and> is_old_pending w (?xs ! i)}"
    by (auto simp: is_old_pending_def mark_cancelled_def split: if_splits)
  show ?thesis
    unfolding eq using set_eq
    by (auto simp: is_old_pending_def mark_cancelled_def length_filter_conv_card)
qed

lemma twentyFourHoursAgo_same_offset:
  "local_offset w = local_offset_before w \<Longrightarrow> twentyFourHoursAgo w = now w - 24 * 60 * 60 * 1000"
  by (simp add: twentyFourHoursAgo_def)

text \<open>
  \<^bold>\<open>C9.\<close> The cutoff of the sweep is not always 24 hours before the request. On the
  day after the clocks have gone back, a pending reservation that is 24 hours and 30
  minutes old is left pending and the sweep reports nothing to clean up. On the day after
  the clocks have gone forward, a pending reservation that is 23 hours and 30 minutes old
  is cancelled and counted.
\<close>

theorem sweep_across_clock_change:
  "map status (credit_transactions autumn_db) = [Pending]
   \<and> created_at (credit_transactions autumn_db ! 0) = now autumn_noon - (24 * 60 + 30) * 60 * 1000
   \<and> cleanup_pending autumn_noon autumn_db = (autumn_db, CleanupNothing)
   \<and> map status (credit_transactions spring_db) = [Pending]
   \<and> created_at (credit_transactions spring_db ! 0) = now spring_noon - (23 * 60 + 30) * 60 * 1000
   \<and> map status (credit_transactions (fst (cleanup_pending spring_noon spring_db))) = [Cancelled]
   \<and> snd (cleanup_pending spring_noon spring_db) = CleanupCancelled 1"
  by (simp add: autumn_noon_def autumn_db_def spring_noon_def spring_db_def eval_defs)

section \<open>Negative amounts\<close>

text \<open>
  \<^bold>\<open>C10.\<close> A strictly negative \<^verbatim>\<open>creditAmount\<close> is not rejected: for an account
  with a balance that is not negative, the answer is neither the validation error nor
  \<^verbatim>\<open>Insufficient credits\<close>, and when the shop issues the price rule and the code, a
  pending row with that negative amount is inserted.
\<close>

theorem reserve_negative_amount:
  assumes "profiles s u = Some p" and "0 \<le> credits p"
    and "userId req = Some u" and "u \<noteq> []"
    and "creditAmount req = Some a" and "cartItems req = Some items"
    and "a < 0"
  shows "snd (apply_credits w req s) \<noteq> MissingFields
    \<and> (\<forall>x y. snd (apply_credits w req s) \<noteq> InsufficientCredits x y)
    \<and> (\<forall>rid. price_rule_created w = Some rid \<and> code_created w \<longrightarrow>
          snd (apply_credits w req s) = ApplySuccess (make_discount_code w) a (credits p) rid
        \<and> credit_transactions (fst (apply_credits w req s))
            = credit_transactions s @ [pending_row w u a rid]
        \<and> status (pending_row w u a rid) = Pending
        \<and> amount (pending_row w u a rid) < 0)"
  using assms
  by (auto simp: apply_credits_def issue_and_record_def pending_row_def split: option.splits)

theorem reserve_negative_amount_witness:
  "snd (apply_credits w1 (reserve_req (- 500)) alice_db)
     = ApplySuccess ''CREDIT-1730123456000-abc123'' (- 500) 5000 123456
   \<and> map amount (credit_transactions (fst (apply_credits w1 (reserve_req (- 500)) alice_db))) = [- 500]
   \<and> map status (credit_transactions (fst (apply_credits w1 (reserve_req (- 500)) alice_db))) = [Pending]"
proof -
  have "profiles alice_db ''alice'' = Some \<lparr>email = ''alice@example.com'', credits = 5000\<rparr>"
    by (simp add: alice_db_def)
  from reserve_negative_amount [OF this, of "reserve_req (- 500)" "- 500" "[''coffee'']" w1]
  have "price_rule_created w1 = Some 123456 \<and> code_created w1 \<longrightarrow>
          snd (apply_credits w1 (reserve_req (- 500)) alice_db)
            = ApplySuccess (make_discount_code w1) (- 500) 5000 123456
        \<and> credit_transactions (fst (apply_credits w1 (reserve_req (- 500)) alice_db))
            = credit_transactions alice_db @ [pending_row w1 ''alice'' (- 500) 123456]"
    by (simp add: reserve_req_def)
  then show ?thesis
    by (simp add: w1_def shop_ok_def alice_db_def pending_row_def make_discount_code_def
        string_of_nat.simps)
qed

end
